theory Spec2Isabelle
  imports Complex_Main "HOL-Library.Word"
begin

unbundle bit_operations_syntax

section \<open>The page and the GPU device\<close>

text \<open>
  The program is one script, \<^verbatim>\<open>src/index.ts\<close>: an asynchronous \<^verbatim>\<open>init\<close> that sets up a
  WebGPU device for Conway's Game of Life and starts a timer, the timer's callback
  \<^verbatim>\<open>updateGrid\<close> (a closure of \<^verbatim>\<open>init\<close>), and the window's \<^verbatim>\<open>resize\<close> handler.

  The browser objects the script touches are one record, \<open>world\<close>, passed through every
  function. An object created on the device (a buffer, a bind group, a pipeline) is kept
  in the list of its kind, in creation order, and is referred to by its position there:
  a JavaScript reference is a handle of type \<open>nat\<close>. A thrown exception is a value of
  type \<open>error\<close>.
\<close>

datatype error = Error string | TypeError

text \<open>The flags of \<^verbatim>\<open>GPUBufferUsage\<close> and \<^verbatim>\<open>GPUShaderStage\<close>, as the WebGPU API numbers them.\<close>

definition COPY_DST :: "32 word" where "COPY_DST = 0x0008"
definition VERTEX_USAGE :: "32 word" where "VERTEX_USAGE = 0x0020"
definition UNIFORM :: "32 word" where "UNIFORM = 0x0040"
definition STORAGE :: "32 word" where "STORAGE = 0x0080"

definition VERTEX :: "32 word" where "VERTEX = 0x1"
definition FRAGMENT :: "32 word" where "FRAGMENT = 0x2"
definition COMPUTE :: "32 word" where "COMPUTE = 0x4"

text \<open>
  Typed arrays. A \<^verbatim>\<open>Uint32Array\<close> holds 32-bit words. The entries of a \<^verbatim>\<open>Float32Array\<close>
  are kept as the numbers the source writes (their rounding to single precision is not
  modelled; only the arrays' lengths are used below).
\<close>

datatype typed_array = Float32Array "real list" | Uint32Array "32 word list"

fun byteLength :: "typed_array \<Rightarrow> nat" where
  "byteLength (Float32Array xs) = 4 * length xs"
| "byteLength (Uint32Array xs) = 4 * length xs"

text \<open>Descriptors of the objects created on the device.\<close>

datatype gpu_buffer =
  GPUBuffer (buffer_label: string) (buffer_size: nat) (buffer_usage: "32 word")

datatype shader_module = ShaderModule (module_label: string) (module_code: string)

datatype buffer_binding_type = uniform | read_only_storage | storage

datatype layout_entry =
  LayoutEntry (layout_binding: nat) (visibility: "32 word") (buffer_type: buffer_binding_type)

datatype bind_group_layout =
  BindGroupLayout (bgl_label: string) (bgl_entries: "layout_entry list")

text \<open>An entry of a bind group: the binding number and the buffer bound there.\<close>

datatype bind_group =
  BindGroup (bg_label: string) (bg_layout: nat) (bg_entries: "(nat \<times> nat) list")

datatype pipeline_layout = PipelineLayout (pl_label: string) (pl_bindGroupLayouts: "nat list")

datatype vertex_attribute =
  VertexAttribute (attr_format: string) (attr_offset: nat) (shaderLocation: nat)

datatype vertex_buffer_layout =
  VertexBufferLayout (arrayStride: nat) (attributes: "vertex_attribute list")

datatype render_pipeline =
  RenderPipeline (rp_label: string) (rp_layout: nat)
    (vertex_module: nat) (vertex_entryPoint: string) (vertex_buffers: "vertex_buffer_layout list")
    (fragment_module: nat) (fragment_entryPoint: string) (fragment_targets: "string list")

datatype compute_pipeline =
  ComputePipeline (cp_label: string) (cp_layout: nat) (compute_module: nat)
    (compute_entryPoint: string)

text \<open>
  What a command encoder records. A pass is the list of the commands issued between its
  begin and its \<^verbatim>\<open>end()\<close>; a command buffer is the list of the encoder's passes, in order.
  \<open>CurrentTextureView\<close> stands for \<^verbatim>\<open>context.getCurrentTexture().createView()\<close>.
\<close>

datatype pass_command =
    SetPipeline nat
  | SetBindGroup nat nat
  | DispatchWorkgroups nat nat
  | SetVertexBuffer nat nat
  | Draw nat nat

datatype texture_view = CurrentTextureView

datatype color_attachment =
  ColorAttachment (view: texture_view) (loadOp: string) (clearValue: "real list")
    (storeOp: string)

datatype pass =
    ComputePass "pass_command list"
  | RenderPass "color_attachment list" "pass_command list"

type_synonym command_buffer = "pass list"

text \<open>
  A CSS length written by a template string \<^verbatim>\<open>`${x}px`\<close>: the number \<open>x\<close>, not its
  decimal text.
\<close>

datatype css_value = Px real

datatype callback = ResizeHandler | UpdateGrid

text \<open>
  The state of the page. \<open>clientWidth\<close>, \<open>clientHeight\<close> are those of
  \<^verbatim>\<open>document.documentElement\<close>, \<open>innerWidth\<close>, \<open>innerHeight\<close> those of \<^verbatim>\<open>window\<close>; \<open>style\<close> is
  \<^verbatim>\<open>canvas.style\<close>, from property name to value; \<open>canvas_width\<close> and \<open>canvas_height\<close> are
  the canvas element's \<^verbatim>\<open>width\<close> and \<^verbatim>\<open>height\<close> attributes (the size of its drawing buffer);
  \<open>configured\<close> is the format given to \<^verbatim>\<open>context.configure\<close>; \<open>listeners\<close> and \<open>timers\<close> are
  what \<^verbatim>\<open>addEventListener\<close> and \<^verbatim>\<open>setInterval\<close> registered. The fields \<open>dev_...\<close> are the
  objects created on the GPU device so far, \<open>contents\<close> the data last written to each
  buffer by \<^verbatim>\<open>queue.writeBuffer\<close>, \<open>submitted\<close> the command buffers given to \<^verbatim>\<open>queue.submit\<close>.
\<close>

record world =
  clientWidth :: real
  clientHeight :: real
  innerWidth :: real
  innerHeight :: real
  style :: "string \<rightharpoonup> css_value"
  canvas_width :: nat
  canvas_height :: nat
  configured :: "string option"
  listeners :: "(string \<times> callback) list"
  timers :: "(callback \<times> nat) list"
  dev_buffers :: "gpu_buffer list"
  contents :: "nat \<rightharpoonup> typed_array"
  dev_shaderModules :: "shader_module list"
  dev_bindGroupLayouts :: "bind_group_layout list"
  dev_bindGroups :: "bind_group list"
  dev_pipelineLayouts :: "pipeline_layout list"
  dev_renderPipelines :: "render_pipeline list"
  dev_computePipelines :: "compute_pipeline list"
  submitted :: "command_buffer list"

text \<open>
  What the browser answers during \<^verbatim>\<open>init\<close>: whether \<^verbatim>\<open>navigator.gpu\<close> exists, whether
  \<^verbatim>\<open>requestAdapter()\<close> and \<^verbatim>\<open>getContext("webgpu")\<close> return an object, the preferred canvas
  format, and the successive results of \<^verbatim>\<open>Math.random()\<close> (\<open>random k\<close> is the result of
  call number \<open>k\<close>, counted from 0).
\<close>

record platform =
  gpu_supported :: bool
  adapter_found :: bool
  context_found :: bool
  preferredCanvasFormat :: string
  random :: "nat \<Rightarrow> real"

text \<open>
  The modules \<^verbatim>\<open>./CellShader\<close> and \<^verbatim>\<open>./ComputeShader\<close> that the script imports: the two
  shader texts and \<open>WORKGROUP_SIZE\<close>, the workgroup size, a natural number. They are
  parameters of the functions that use them.
\<close>

record modules =
  CellShader :: string
  ComputeShader :: string
  WORKGROUP_SIZE :: nat

subsection \<open>Device operations\<close>

definition createBuffer :: "gpu_buffer \<Rightarrow> world \<Rightarrow> nat \<times> world" where
  "createBuffer d w = (length (dev_buffers w), w\<lparr>dev_buffers := dev_buffers w @ [d]\<rparr>)"

text \<open>
  \<^verbatim>\<open>device.queue.writeBuffer(buffer, 0, data)\<close>: every call of the script writes at offset
  0 an array as long as the buffer, which replaces the buffer's contents.
\<close>

definition writeBuffer :: "nat \<Rightarrow> typed_array \<Rightarrow> world \<Rightarrow> world" where
  "writeBuffer b data w = w\<lparr>contents := (contents w)(b \<mapsto> data)\<rparr>"

definition createShaderModule :: "shader_module \<Rightarrow> world \<Rightarrow> nat \<times> world" where
  "createShaderModule d w =
     (length (dev_shaderModules w), w\<lparr>dev_shaderModules := dev_shaderModules w @ [d]\<rparr>)"

definition createBindGroupLayout :: "bind_group_layout \<Rightarrow> world \<Rightarrow> nat \<times> world" where
  "createBindGroupLayout d w =
     (length (dev_bindGroupLayouts w),
      w\<lparr>dev_bindGroupLayouts := dev_bindGroupLayouts w @ [d]\<rparr>)"

definition createBindGroup :: "bind_group \<Rightarrow> world \<Rightarrow> nat \<times> world" where
  "createBindGroup d w =
     (length (dev_bindGroups w), w\<lparr>dev_bindGroups := dev_bindGroups w @ [d]\<rparr>)"

definition createPipelineLayout :: "pipeline_layout \<Rightarrow> world \<Rightarrow> nat \<times> world" where
  "createPipelineLayout d w =
     (length (dev_pipelineLayouts w),
      w\<lparr>dev_pipelineLayouts := dev_pipelineLayouts w @ [d]\<rparr>)"

definition createRenderPipeline :: "render_pipeline \<Rightarrow> world \<Rightarrow> nat \<times> world" where
  "createRenderPipeline d w =
     (length (dev_renderPipelines w),
      w\<lparr>dev_renderPipelines := dev_renderPipelines w @ [d]\<rparr>)"

definition createComputePipeline :: "compute_pipeline \<Rightarrow> world \<Rightarrow> nat \<times> world" where
  "createComputePipeline d w =
     (length (dev_computePipelines w),
      w\<lparr>dev_computePipelines := dev_computePipelines w @ [d]\<rparr>)"

definition configure :: "string \<Rightarrow> world \<Rightarrow> world" where
  "configure fmt w = w\<lparr>configured := Some fmt\<rparr>"

definition setInterval :: "callback \<Rightarrow> nat \<Rightarrow> world \<Rightarrow> world" where
  "setInterval f ms w = w\<lparr>timers := timers w @ [(f, ms)]\<rparr>"

definition addEventListener :: "string \<Rightarrow> callback \<Rightarrow> world \<Rightarrow> world" where
  "addEventListener ev f w = w\<lparr>listeners := listeners w @ [(ev, f)]\<rparr>"

definition submit :: "command_buffer list \<Rightarrow> world \<Rightarrow> world" where
  "submit cbs w = w\<lparr>submitted := submitted w @ cbs\<rparr>"

section \<open>The resize handler\<close>

text \<open>
  \<^verbatim>\<open>x || 0\<close> on a number: 0 when \<open>x\<close> is 0 (or NaN, which a window size is not), else \<open>x\<close>.
\<close>

definition or0 :: "real \<Rightarrow> real" where
  "or0 x = (if x = 0 then 0 else x)"

definition canvasWidth :: real where "canvasWidth = 600"
definition canvasHeight :: real where "canvasHeight = 600"

text \<open>
  The sizes are computed here in exact arithmetic (the rounding of the double-precision
  quotient and product is not modelled). The two chained assignments write the right
  and bottom margins before the left and top ones.
\<close>

definition resize :: "world \<Rightarrow> world" where
  "resize w =
    (let screenWidth = max (clientWidth w) (or0 (innerWidth w));
         screenHeight = max (clientHeight w) (or0 (innerHeight w));
         scale = min (screenWidth / canvasWidth) (screenHeight / canvasHeight);
         enlargedWidth = of_int \<lfloor>scale * canvasWidth\<rfloor>;
         enlargedHeight = of_int \<lfloor>scale * canvasHeight\<rfloor>;
         horizontalMargin = (screenWidth - enlargedWidth) / 2;
         verticalMargin = (screenHeight - enlargedHeight) / 2
     in w\<lparr>style := (style w)
          (''width'' \<mapsto> Px enlargedWidth,
           ''height'' \<mapsto> Px enlargedHeight,
           ''marginRight'' \<mapsto> Px horizontalMargin,
           ''marginLeft'' \<mapsto> Px horizontalMargin,
           ''marginBottom'' \<mapsto> Px verticalMargin,
           ''marginTop'' \<mapsto> Px verticalMargin)\<rparr>)"

section \<open>Initialisation\<close>

definition GRID_SIZE :: nat where "GRID_SIZE = 32"
definition UPDATE_INTERVAL :: nat where "UPDATE_INTERVAL = 500"

text \<open>
  The literal \<^verbatim>\<open>0.4\<close> of the seeding loop is a double: the one nearest to 4/10, which is
  3602879701896397 / 2^53 (slightly above 4/10). A result of \<^verbatim>\<open>Math.random()\<close> is compared
  with that number.
\<close>

definition threshold :: real where
  "threshold = 3602879701896397 / 9007199254740992"

text \<open>
  \<^verbatim>\<open>for (let i = 0; i < cellStateArray.length; i += 3)
    cellStateArray[i] = Math.random() > 0.4 ? 1 : 0\<close>
  with \<open>k\<close> the number of calls of \<^verbatim>\<open>Math.random()\<close> made before this iteration.
\<close>

function seed_loop :: "(nat \<Rightarrow> real) \<Rightarrow> nat \<Rightarrow> nat \<Rightarrow> 32 word list \<Rightarrow> 32 word list" where
  "seed_loop rnd k i cellStateArray =
     (if i < length cellStateArray
      then seed_loop rnd (k + 1) (i + 3)
             (cellStateArray[i := (if rnd k > threshold then 1 else 0)])
      else cellStateArray)"
  by pat_completeness auto
termination
  by (relation "measure (\<lambda>(rnd, k, i, a). length a - i)") auto

declare seed_loop.simps [simp del]

definition vertices :: "real list" where
  "vertices = [-0.8, -0.8, 0.8, -0.8, 0.8, 0.8,
               -0.8, -0.8, 0.8, 0.8, -0.8, 0.8]"

definition vertexBufferLayout :: vertex_buffer_layout where
  "vertexBufferLayout = VertexBufferLayout 8 [VertexAttribute ''float32x2'' 0 0]"

text \<open>
  The constants of \<^verbatim>\<open>init\<close> that its closure \<^verbatim>\<open>updateGrid\<close> reads, and the counter \<open>step\<close>
  that it increments. \<open>bindGroups\<close> and \<open>cellStateStorage\<close> are the script's two-element
  arrays, of handles.
\<close>

record closure =
  uniformBuffer :: nat
  cellStateStorage :: "nat list"
  vertexBuffer :: nat
  bindGroups :: "nat list"
  cellPipeline :: nat
  simulatePipeline :: nat
  step :: nat

text \<open>
  \<^verbatim>\<open>init\<close> returns the exception it throws (its promise is rejected), or the closure it
  leaves to the timer; in both cases with the state of the page at that moment. The
  device that \<^verbatim>\<open>requestDevice()\<close> returns is the one whose objects \<open>world\<close> records;
  requesting it creates none.
\<close>

definition init :: "platform \<Rightarrow> modules \<Rightarrow> world \<Rightarrow> (error + closure) \<times> world" where
  "init p m w0 =
    (let w = resize w0 in
     if \<not> gpu_supported p then (Inl (Error ''WebGPU not supported on this browser''), w)
     else if \<not> adapter_found p then (Inl (Error ''No appropriate GPUAdapter found.''), w)
     else if \<not> context_found p then (Inl (Error ''Could not get canvas context''), w)
     else
       let canvasFormat = preferredCanvasFormat p;
           w = configure canvasFormat w;
           uniformArray = Float32Array [real GRID_SIZE, real GRID_SIZE];
           (uniformBuffer, w) = createBuffer
              (GPUBuffer ''Grid Uniforms'' (byteLength uniformArray) (UNIFORM OR COPY_DST)) w;
           w = writeBuffer uniformBuffer uniformArray w;
           cellStateArray = replicate (GRID_SIZE * GRID_SIZE) (0 :: 32 word);
           (cellStateA, w) = createBuffer
              (GPUBuffer ''Cell State A'' (byteLength (Uint32Array cellStateArray))
                 (STORAGE OR COPY_DST)) w;
           (cellStateB, w) = createBuffer
              (GPUBuffer ''Cell State B'' (byteLength (Uint32Array cellStateArray))
                 (STORAGE OR COPY_DST)) w;
           cellStateStorage = [cellStateA, cellStateB];
           cellStateArray = seed_loop (random p) 0 0 cellStateArray;
           w = writeBuffer (cellStateStorage ! 0) (Uint32Array cellStateArray) w;
           w = writeBuffer (cellStateStorage ! 1) (Uint32Array cellStateArray) w;
           (vertexBuffer, w) = createBuffer
              (GPUBuffer ''Cell verticies'' (byteLength (Float32Array vertices))
                 (VERTEX_USAGE OR COPY_DST)) w;
           w = writeBuffer vertexBuffer (Float32Array vertices) w;
           (cellShaderModule, w) = createShaderModule
              (ShaderModule ''Cell shader'' (CellShader m)) w;
           (simulateShaderModule, w) = createShaderModule
              (ShaderModule ''Game of Life simulation shader'' (ComputeShader m)) w;
           (bindGroupLayout, w) = createBindGroupLayout
              (BindGroupLayout ''Cell Bind Group Layout''
                 [LayoutEntry 0 (FRAGMENT OR COMPUTE OR VERTEX) uniform,
                  LayoutEntry 1 (COMPUTE OR VERTEX) read_only_storage,
                  LayoutEntry 2 COMPUTE storage]) w;
           (bindGroupA, w) = createBindGroup
              (BindGroup ''Cell renderer bind group A'' bindGroupLayout
                 [(0, uniformBuffer), (1, cellStateStorage ! 0), (2, cellStateStorage ! 1)]) w;
           (bindGroupB, w) = createBindGroup
              (BindGroup ''Cell renderer bind group B'' bindGroupLayout
                 [(0, uniformBuffer), (1, cellStateStorage ! 1), (2, cellStateStorage ! 0)]) w;
           bindGroups = [bindGroupA, bindGroupB];
           (pipelineLayout, w) = createPipelineLayout
              (PipelineLayout ''Cell Pipeline Layout'' [bindGroupLayout]) w;
           (cellPipeline, w) = createRenderPipeline
              (RenderPipeline ''Cell pipeline'' pipelineLayout
                 cellShaderModule ''vertexMain'' [vertexBufferLayout]
                 cellShaderModule ''fragmentMain'' [canvasFormat]) w;
           (simulatePipeline, w) = createComputePipeline
              (ComputePipeline ''Simulation pipeline'' pipelineLayout
                 simulateShaderModule ''computeMain'') w;
           step = 0;
           w = setInterval UpdateGrid UPDATE_INTERVAL w
       in (Inr \<lparr>uniformBuffer = uniformBuffer, cellStateStorage = cellStateStorage,
                 vertexBuffer = vertexBuffer, bindGroups = bindGroups,
                 cellPipeline = cellPipeline, simulatePipeline = simulatePipeline,
                 step = step\<rparr>, w))"

text \<open>The script's top level: the listener is registered, then \<^verbatim>\<open>init()\<close> is called.\<close>

definition main :: "platform \<Rightarrow> modules \<Rightarrow> world \<Rightarrow> (error + closure) \<times> world" where
  "main p m w = init p m (addEventListener ''resize'' ResizeHandler w)"

section \<open>The timer's callback\<close>

text \<open>
  \<^verbatim>\<open>step++\<close>. A JavaScript number is a double: below 2^53 the successor of a natural
  number is exact; 2^53 + 1 is not a double and rounds to 2^53, so the counter stays
  there. (From 2^53 to 2^54 the doubles are the even numbers, and \<open>n + 1\<close> lies halfway
  between \<open>n\<close> and \<open>n + 2\<close>: it rounds to the one whose half is even. From 2^54 on,
  \<open>n + 1\<close> rounds to \<open>n\<close>. The counter, which starts at 0, never gets there.)
\<close>

definition js_incr :: "nat \<Rightarrow> nat" where
  "js_incr n =
     (if n < 2 ^ 53 then n + 1
      else if n < 2 ^ 54 \<and> odd (n div 2) then n + 2
      else n)"

text \<open>
  The numbers of \<^verbatim>\<open>Math.ceil(GRID_SIZE / WORKGROUP_SIZE)\<close>: a quotient by 0 is \<^verbatim>\<open>Infinity\<close>
  (the dividend, \<open>GRID_SIZE\<close>, is positive), and so is its ceiling.
\<close>

datatype number = Number real | Infinity

definition js_divide :: "nat \<Rightarrow> nat \<Rightarrow> number" where
  "js_divide a b = (if b = 0 then Infinity else Number (real a / real b))"

fun Math_ceil :: "number \<Rightarrow> number" where
  "Math_ceil (Number x) = Number (of_int \<lceil>x\<rceil>)"
| "Math_ceil Infinity = Infinity"

text \<open>
  The arguments of \<^verbatim>\<open>dispatchWorkgroups\<close> are of the type \<^verbatim>\<open>GPUSize32\<close>, an unsigned 32-bit
  integer with range enforced: the call throws a \<^verbatim>\<open>TypeError\<close> on \<^verbatim>\<open>Infinity\<close> and on a
  number whose integer part is not from 0 to 2^32 - 1.
\<close>

fun to_GPUSize32 :: "number \<Rightarrow> error + nat" where
  "to_GPUSize32 Infinity = Inl TypeError"
| "to_GPUSize32 (Number x) =
     (let i = (if 0 \<le> x then \<lfloor>x\<rfloor> else \<lceil>x\<rceil>)
      in if 0 \<le> i \<and> i < 2 ^ 32 then Inr (nat i) else Inl TypeError)"

definition dispatchWorkgroups :: "number \<Rightarrow> number \<Rightarrow> error + pass_command" where
  "dispatchWorkgroups x y =
     (case to_GPUSize32 x of
        Inl e \<Rightarrow> Inl e
      | Inr a \<Rightarrow> (case to_GPUSize32 y of
                    Inl e \<Rightarrow> Inl e
                  | Inr b \<Rightarrow> Inr (DispatchWorkgroups a b)))"

text \<open>
  \<^verbatim>\<open>updateGrid\<close> on the closure and the page. \<open>step % 2\<close> is 0 or 1 and \<open>bindGroups\<close> has two
  elements, so the array reads are in range. \<^verbatim>\<open>vertices.length / 2\<close> is 12 / 2, an integer.
  When \<^verbatim>\<open>dispatchWorkgroups\<close> throws, the callback ends there, before \<^verbatim>\<open>step++\<close> and with
  nothing submitted.
\<close>

definition updateGrid :: "modules \<Rightarrow> closure \<times> world \<Rightarrow> (error + unit) \<times> closure \<times> world" where
  "updateGrid m s =
    (let (c, w) = s;
         computePass = [SetPipeline (simulatePipeline c),
                        SetBindGroup 0 (bindGroups c ! (step c mod 2))];
         workgroupCount = Math_ceil (js_divide GRID_SIZE (WORKGROUP_SIZE m))
     in case dispatchWorkgroups workgroupCount workgroupCount of
          Inl e \<Rightarrow> (Inl e, c, w)
        | Inr dispatch \<Rightarrow>
            let computePass = computePass @ [dispatch];
                c = c\<lparr>step := js_incr (step c)\<rparr>;
                renderPass = [SetPipeline (cellPipeline c),
                              SetBindGroup 0 (bindGroups c ! (step c mod 2)),
                              SetVertexBuffer 0 (vertexBuffer c),
                              Draw (length vertices div 2) (GRID_SIZE * GRID_SIZE)];
                encoder = [ComputePass computePass,
                           RenderPass [ColorAttachment CurrentTextureView ''clear''
                                         [0, 0, 0.1, 1] ''store''] renderPass]
            in (Inr (), c, submit [encoder] w))"

text \<open>
  One firing of the timer runs the callback; an exception of the callback is reported
  by the browser and the timer goes on. \<open>run m n s\<close> is the state after \<open>n\<close> firings.
\<close>

definition tick :: "modules \<Rightarrow> closure \<times> world \<Rightarrow> closure \<times> world" where
  "tick m s = snd (updateGrid m s)"

definition run :: "modules \<Rightarrow> nat \<Rightarrow> closure \<times> world \<Rightarrow> closure \<times> world" where
  "run m n s = (tick m ^^ n) s"

text \<open>
  The command buffers that tick number \<open>t\<close> (counted from 0) submits, when the timer
  starts in state \<open>s\<close>.
\<close>

definition tick_output :: "modules \<Rightarrow> closure \<times> world \<Rightarrow> nat \<Rightarrow> command_buffer list" where
  "tick_output m s t =
     drop (length (submitted (snd (run m t s)))) (submitted (snd (run m (Suc t) s)))"

subsection \<open>Reading a command buffer\<close>

fun compute_commands :: "pass \<Rightarrow> pass_command list" where
  "compute_commands (ComputePass cs) = cs"
| "compute_commands (RenderPass a cs) = []"

fun render_commands :: "pass \<Rightarrow> pass_command list" where
  "render_commands (ComputePass cs) = []"
| "render_commands (RenderPass a cs) = cs"

fun bound_groups :: "pass_command list \<Rightarrow> nat list" where
  "bound_groups [] = []"
| "bound_groups (SetBindGroup i g # cs) = g # bound_groups cs"
| "bound_groups (c # cs) = bound_groups cs"

fun dispatches :: "pass_command list \<Rightarrow> (nat \<times> nat) list" where
  "dispatches [] = []"
| "dispatches (DispatchWorkgroups x y # cs) = (x, y) # dispatches cs"
| "dispatches (c # cs) = dispatches cs"

fun draws :: "pass_command list \<Rightarrow> (nat \<times> nat) list" where
  "draws [] = []"
| "draws (Draw v i # cs) = (v, i) # draws cs"
| "draws (c # cs) = draws cs"

text \<open>The bind groups that the compute passes, and the render passes, of a command buffer set.\<close>

definition compute_bind_groups :: "command_buffer \<Rightarrow> nat list" where
  "compute_bind_groups cb = concat (map (bound_groups \<circ> compute_commands) cb)"

definition render_bind_groups :: "command_buffer \<Rightarrow> nat list" where
  "render_bind_groups cb = concat (map (bound_groups \<circ> render_commands) cb)"

text \<open>
  The buffer that bind group \<open>g\<close> binds at binding \<open>b\<close>. By the bind group layout, binding
  1 is the read-only storage buffer (the cell state a shader reads) and binding 2 the
  storage buffer (the cell state the compute shader writes).
\<close>

definition bound_buffer :: "world \<Rightarrow> nat \<Rightarrow> nat \<Rightarrow> nat option" where
  "bound_buffer w g b =
     (if g < length (dev_bindGroups w) then map_of (bg_entries (dev_bindGroups w ! g)) b
      else None)"

text \<open>The dispatches of the compute passes and the draws of the render passes.\<close>

definition compute_dispatches :: "command_buffer \<Rightarrow> (nat \<times> nat) list" where
  "compute_dispatches cb = concat (map (dispatches \<circ> compute_commands) cb)"

definition render_draws :: "command_buffer \<Rightarrow> (nat \<times> nat) list" where
  "render_draws cb = concat (map (draws \<circ> render_commands) cb)"

text \<open>
  The ping-pong property of one command buffer: it has one compute bind group and one
  render bind group, and the buffer the render bind group reads (binding 1) is the
  buffer the compute bind group writes (binding 2).
\<close>

definition render_reads_written :: "world \<Rightarrow> command_buffer \<Rightarrow> bool" where
  "render_reads_written w cb =
     (case (compute_bind_groups cb, render_bind_groups cb) of
        ([gc], [gr]) \<Rightarrow>
          (case bound_buffer w gc 2 of
             None \<Rightarrow> False
           | Some b \<Rightarrow> bound_buffer w gr 1 = Some b)
      | _ \<Rightarrow> False)"

subsection \<open>Seeding one cell\<close>

text \<open>
  The value the seeding loop gives a cell whose draw is \<open>r\<close>: the loop run on an array of
  one cell. \<open>dead_fraction n\<close> is the share of dead cells among the \<open>n\<close> equally spaced draws
  \<open>0/n, 1/n, ..., (n-1)/n\<close> of the interval from 0 to 1, each as likely as the others (an
  engine's \<^verbatim>\<open>Math.random()\<close> draws from such a set, with \<open>n\<close> a power of 2 like 2^53).
\<close>

definition seeded :: "real \<Rightarrow> 32 word" where
  "seeded r = seed_loop (\<lambda>k. r) 0 0 [0] ! 0"

definition dead_fraction :: "nat \<Rightarrow> real" where
  "dead_fraction n =
     real (length (filter (\<lambda>k. seeded (real k / real n) = 0) [0..<n])) / real n"

subsection \<open>A concrete page\<close>

text \<open>
  A page before the script has run (an 800 by 600 window, a canvas of the default size,
  no GPU object yet), a browser that supports WebGPU, and shader modules with a
  workgroup size of 8.
\<close>

definition page0 :: world where
  "page0 = \<lparr>clientWidth = 800, clientHeight = 600, innerWidth = 800, innerHeight = 600,
            style = Map.empty, canvas_width = 300, canvas_height = 150,
            configured = None, listeners = [], timers = [],
            dev_buffers = [], contents = Map.empty, dev_shaderModules = [],
            dev_bindGroupLayouts = [], dev_bindGroups = [], dev_pipelineLayouts = [],
            dev_renderPipelines = [], dev_computePipelines = [], submitted = []\<rparr>"

definition browser0 :: platform where
  "browser0 = \<lparr>gpu_supported = True, adapter_found = True, context_found = True,
               preferredCanvasFormat = ''bgra8unorm'',
               random = (\<lambda>k. if even k then 1 / 2 else 1 / 4)\<rparr>"

definition imports0 :: modules where
  "imports0 = \<lparr>CellShader = ''cell'', ComputeShader = ''compute'', WORKGROUP_SIZE = 8\<rparr>"

text \<open>
  The closure that \<^verbatim>\<open>init\<close> returns on that page (its handles are the positions of the
  first objects of the device), and the page it leaves.
\<close>

definition closure0 :: closure where
  "closure0 = \<lparr>uniformBuffer = 0, cellStateStorage = [1, 2], vertexBuffer = 3,
                bindGroups = [0, 1], cellPipeline = 0, simulatePipeline = 0, step = 0\<rparr>"

definition world0 :: world where
  "world0 = snd (init browser0 imports0 page0)"

section \<open>Auxiliary facts\<close>

subsection \<open>The seeding loop\<close>

lemma length_seed_loop: "length (seed_loop rnd k i a) = length a"
proof (induction rnd k i a rule: seed_loop.induct)
  case (1 rnd k i a)
  show ?case
    using "1.IH" by (subst seed_loop.simps) simp
qed

text \<open>
  The loop visits \<open>i, i + 3, i + 6, ...\<close>: cell \<open>j\<close> is overwritten when \<open>j - i\<close> is a
  multiple of 3, with the outcome of draw number \<open>k + (j - i) div 3\<close>.
\<close>

lemma seed_loop_nth:
  "j < length a \<Longrightarrow>
   seed_loop rnd k i a ! j =
     (if i \<le> j \<and> (j - i) mod 3 = 0
      then (if rnd (k + (j - i) div 3) > threshold then 1 else 0)
      else a ! j)"
proof (induction rnd k i a rule: seed_loop.induct)
  case (1 rnd k i a)
  show ?case
  proof (cases "i < length a")
    case False
    with "1.prems" show ?thesis by (subst seed_loop.simps) simp
  next
    case True
    define v :: "32 word" where "v = (if rnd k > threshold then 1 else 0)"
    have unfold: "seed_loop rnd k i a = seed_loop rnd (k + 1) (i + 3) (a[i := v])"
      using True by (subst seed_loop.simps) (simp add: v_def)
    have IH: "seed_loop rnd (k + 1) (i + 3) (a[i := v]) ! j =
        (if i + 3 \<le> j \<and> (j - (i + 3)) mod 3 = 0
         then (if rnd (k + 1 + (j - (i + 3)) div 3) > threshold then 1 else 0)
         else a[i := v] ! j)"
      using "1.IH"[OF True] "1.prems" by (simp add: v_def)
    have step: "seed_loop rnd k i a ! j =
        (if i + 3 \<le> j \<and> (j - (i + 3)) mod 3 = 0
         then (if rnd (k + 1 + (j - (i + 3)) div 3) > threshold then 1 else 0)
         else a[i := v] ! j)"
      by (simp only: unfold IH)
    show ?thesis
    proof (cases "j = i")
      case True
      then show ?thesis using \<open>i < length a\<close> unfolding step by (simp add: v_def)
    next
      case False
      show ?thesis
      proof (cases "i + 3 \<le> j \<and> (j - (i + 3)) mod 3 = 0")
        case True
        then have a: "i \<le> j \<and> (j - i) mod 3 = 0" by presburger
        from True have b: "k + 1 + (j - (i + 3)) div 3 = k + (j - i) div 3" by presburger
        show ?thesis unfolding step b if_P[OF True] if_P[OF a] ..
      next
        case F: False
        then have a: "\<not> (i \<le> j \<and> (j - i) mod 3 = 0)" using False by presburger
        show ?thesis unfolding step if_not_P[OF F] if_not_P[OF a] using False by simp
      qed
    qed
  qed
qed

subsection \<open>Initialisation\<close>

lemmas device_ops =
  createBuffer_def writeBuffer_def createShaderModule_def createBindGroupLayout_def
  createBindGroup_def createPipelineLayout_def createRenderPipeline_def
  createComputePipeline_def configure_def setInterval_def

lemma resize_fields:
  "dev_buffers (resize w) = dev_buffers w"
  "dev_bindGroups (resize w) = dev_bindGroups w"
  "dev_shaderModules (resize w) = dev_shaderModules w"
  "dev_bindGroupLayouts (resize w) = dev_bindGroupLayouts w"
  "dev_pipelineLayouts (resize w) = dev_pipelineLayouts w"
  "dev_renderPipelines (resize w) = dev_renderPipelines w"
  "dev_computePipelines (resize w) = dev_computePipelines w"
  "contents (resize w) = contents w"
  "timers (resize w) = timers w"
  "submitted (resize w) = submitted w"
  by (simp_all add: resize_def Let_def)

lemma init_throws:
  "\<not> (gpu_supported p \<and> adapter_found p \<and> context_found p) \<Longrightarrow>
   init p m w0 =
     (Inl (if \<not> gpu_supported p then Error ''WebGPU not supported on this browser''
           else if \<not> adapter_found p then Error ''No appropriate GPUAdapter found.''
           else Error ''Could not get canvas context''), resize w0)"
  by (auto simp add: init_def Let_def)

lemma init_closure:
  "gpu_supported p \<Longrightarrow> adapter_found p \<Longrightarrow> context_found p \<Longrightarrow>
   fst (init p m w0) =
     Inr \<lparr>uniformBuffer = length (dev_buffers w0),
          cellStateStorage = [length (dev_buffers w0) + 1, length (dev_buffers w0) + 2],
          vertexBuffer = length (dev_buffers w0) + 3,
          bindGroups = [length (dev_bindGroups w0), length (dev_bindGroups w0) + 1],
          cellPipeline = length (dev_renderPipelines w0),
          simulatePipeline = length (dev_computePipelines w0),
          step = 0\<rparr>"
  by (simp add: init_def Let_def split_def device_ops resize_fields)

lemma init_returns:
  "init p m w0 = (Inr c, w) \<Longrightarrow> gpu_supported p \<and> adapter_found p \<and> context_found p"
  using init_throws[of p m w0] by (cases "gpu_supported p \<and> adapter_found p \<and> context_found p") auto

lemma init_ok:
  assumes "init p m w0 = (Inr c, w)"
  shows "fst (init p m w0) = Inr c" "snd (init p m w0) = w"
    "gpu_supported p" "adapter_found p" "context_found p"
  using assms init_returns[OF assms] by simp_all

lemma init_closure_eq:
  assumes "init p m w0 = (Inr c, w)"
  shows "c = \<lparr>uniformBuffer = length (dev_buffers w0),
          cellStateStorage = [length (dev_buffers w0) + 1, length (dev_buffers w0) + 2],
          vertexBuffer = length (dev_buffers w0) + 3,
          bindGroups = [length (dev_bindGroups w0), length (dev_bindGroups w0) + 1],
          cellPipeline = length (dev_renderPipelines w0),
          simulatePipeline = length (dev_computePipelines w0),
          step = 0\<rparr>"
  using init_closure[OF init_ok(3-5)[OF assms], of m w0] init_ok(1)[OF assms] by simp

lemma init_buffers:
  assumes "init p m w0 = (Inr c, w)"
  shows "dev_buffers w = dev_buffers w0 @
          [GPUBuffer ''Grid Uniforms'' 8 (UNIFORM OR COPY_DST),
           GPUBuffer ''Cell State A'' (4 * (GRID_SIZE * GRID_SIZE)) (STORAGE OR COPY_DST),
           GPUBuffer ''Cell State B'' (4 * (GRID_SIZE * GRID_SIZE)) (STORAGE OR COPY_DST),
           GPUBuffer ''Cell verticies'' 48 (VERTEX_USAGE OR COPY_DST)]"
  using init_ok(3-5)[OF assms] unfolding init_ok(2)[OF assms, symmetric]
  by (simp add: init_def Let_def split_def device_ops resize_fields vertices_def)

lemma init_contents:
  assumes "init p m w0 = (Inr c, w)"
  shows "contents w = (contents w0)
          (length (dev_buffers w0) \<mapsto> Float32Array [real GRID_SIZE, real GRID_SIZE],
           length (dev_buffers w0) + 1 \<mapsto>
             Uint32Array (seed_loop (random p) 0 0 (replicate (GRID_SIZE * GRID_SIZE) 0)),
           length (dev_buffers w0) + 2 \<mapsto>
             Uint32Array (seed_loop (random p) 0 0 (replicate (GRID_SIZE * GRID_SIZE) 0)),
           length (dev_buffers w0) + 3 \<mapsto> Float32Array vertices)"
  using init_ok(3-5)[OF assms] unfolding init_ok(2)[OF assms, symmetric]
  by (simp add: init_def Let_def split_def device_ops resize_fields numeral_3_eq_3)

lemma init_bindGroups:
  assumes "init p m w0 = (Inr c, w)"
  shows "dev_bindGroups w = dev_bindGroups w0 @
          [BindGroup ''Cell renderer bind group A'' (length (dev_bindGroupLayouts w0))
             [(0, length (dev_buffers w0)), (1, length (dev_buffers w0) + 1),
              (2, length (dev_buffers w0) + 2)],
           BindGroup ''Cell renderer bind group B'' (length (dev_bindGroupLayouts w0))
             [(0, length (dev_buffers w0)), (1, length (dev_buffers w0) + 2),
              (2, length (dev_buffers w0) + 1)]]"
  using init_ok(3-5)[OF assms] unfolding init_ok(2)[OF assms, symmetric]
  by (simp add: init_def Let_def split_def device_ops resize_fields)

lemma init_timers:
  assumes "init p m w0 = (Inr c, w)"
  shows "timers w = timers w0 @ [(UpdateGrid, UPDATE_INTERVAL)]"
    and "submitted w = submitted w0"
  using init_ok(3-5)[OF assms] unfolding init_ok(2)[OF assms, symmetric]
  by (simp_all add: init_def Let_def split_def device_ops resize_fields)

lemma init0: "init browser0 imports0 page0 = (Inr closure0, world0)"
  using init_closure[of browser0 imports0 page0]
  by (simp add: browser0_def page0_def closure0_def world0_def prod_eq_iff)

subsection \<open>The timer\<close>

lemma tick_keeps:
  "dev_bindGroups (snd (tick m s)) = dev_bindGroups (snd s)"
  "bindGroups (fst (tick m s)) = bindGroups (fst s)"
  "cellStateStorage (fst (tick m s)) = cellStateStorage (fst s)"
  by (simp_all add: tick_def updateGrid_def Let_def split_def submit_def split: sum.split)

text \<open>With a positive workgroup size the dispatch is accepted: the count is from 1 to 32.\<close>

lemma workgroupCount_ok:
  assumes "0 < k"
  shows "dispatchWorkgroups (Math_ceil (js_divide GRID_SIZE k)) (Math_ceil (js_divide GRID_SIZE k))
       = Inr (DispatchWorkgroups (nat \<lceil>real GRID_SIZE / real k\<rceil>)
                (nat \<lceil>real GRID_SIZE / real k\<rceil>))"
proof -
  define x where "x = real GRID_SIZE / real k"
  have "0 < x" using assms by (simp add: x_def GRID_SIZE_def)
  then have lo: "0 < \<lceil>x\<rceil>" by linarith
  have "real GRID_SIZE / real k \<le> real GRID_SIZE / 1"
    using assms by (intro divide_left_mono) simp_all
  then have "x \<le> 32" by (simp add: x_def GRID_SIZE_def)
  then have hi: "\<lceil>x\<rceil> \<le> 32" by (simp add: ceiling_le_iff)
  have "to_GPUSize32 (Number (of_int \<lceil>x\<rceil>)) = Inr (nat \<lceil>x\<rceil>)"
    using lo hi by simp
  then show ?thesis
    using assms unfolding x_def by (simp add: dispatchWorkgroups_def js_divide_def)
qed

lemma run_Suc: "run m (Suc n) s = tick m (run m n s)"
  by (simp add: run_def)

lemma run_keeps:
  "dev_bindGroups (snd (run m n s)) = dev_bindGroups (snd s)"
  "bindGroups (fst (run m n s)) = bindGroups (fst s)"
  "cellStateStorage (fst (run m n s)) = cellStateStorage (fst s)"
  by (induction n) (simp_all add: run_Suc tick_keeps, simp_all add: run_def)

lemma tick_ok:
  assumes "0 < WORKGROUP_SIZE m"
  shows "tick m (c, w) =
    (c\<lparr>step := js_incr (step c)\<rparr>,
     w\<lparr>submitted := submitted w @
       [[ComputePass [SetPipeline (simulatePipeline c),
                      SetBindGroup 0 (bindGroups c ! (step c mod 2)),
                      DispatchWorkgroups (nat \<lceil>real GRID_SIZE / real (WORKGROUP_SIZE m)\<rceil>)
                        (nat \<lceil>real GRID_SIZE / real (WORKGROUP_SIZE m)\<rceil>)],
         RenderPass [ColorAttachment CurrentTextureView ''clear'' [0, 0, 0.1, 1] ''store'']
                    [SetPipeline (cellPipeline c),
                     SetBindGroup 0 (bindGroups c ! (js_incr (step c) mod 2)),
                     SetVertexBuffer 0 (vertexBuffer c),
                     Draw (length vertices div 2) (GRID_SIZE * GRID_SIZE)]]]\<rparr>)"
  by (simp add: tick_def updateGrid_def Let_def submit_def workgroupCount_ok[OF assms])

lemma run_closure:
  assumes "0 < WORKGROUP_SIZE m"
  shows "fst (run m n (c, w)) = c\<lparr>step := (js_incr ^^ n) (step c)\<rparr>"
proof (induction n)
  case 0
  show ?case by (simp add: run_def)
next
  case (Suc n)
  obtain c' w' where r: "run m n (c, w) = (c', w')" by (cases "run m n (c, w)")
  with Suc have "c' = c\<lparr>step := (js_incr ^^ n) (step c)\<rparr>" by simp
  then show ?case unfolding run_Suc r tick_ok[OF assms] by simp
qed

lemma tick_output_ok:
  assumes "0 < WORKGROUP_SIZE m"
  shows "tick_output m (c, w) t =
       [[ComputePass [SetPipeline (simulatePipeline c),
                      SetBindGroup 0 (bindGroups c ! ((js_incr ^^ t) (step c) mod 2)),
                      DispatchWorkgroups (nat \<lceil>real GRID_SIZE / real (WORKGROUP_SIZE m)\<rceil>)
                        (nat \<lceil>real GRID_SIZE / real (WORKGROUP_SIZE m)\<rceil>)],
         RenderPass [ColorAttachment CurrentTextureView ''clear'' [0, 0, 0.1, 1] ''store'']
                    [SetPipeline (cellPipeline c),
                     SetBindGroup 0 (bindGroups c ! ((js_incr ^^ Suc t) (step c) mod 2)),
                     SetVertexBuffer 0 (vertexBuffer c),
                     Draw (length vertices div 2) (GRID_SIZE * GRID_SIZE)]]]"
proof -
  obtain c' w' where r: "run m t (c, w) = (c', w')" by (cases "run m t (c, w)")
  have c': "c' = c\<lparr>step := (js_incr ^^ t) (step c)\<rparr>"
    using run_closure[OF assms, of t c w] r by simp
  show ?thesis
    unfolding tick_output_def run_Suc r tick_ok[OF assms] by (simp add: c')
qed

lemma js_incr_below: "n < 2 ^ 53 \<Longrightarrow> js_incr n = n + 1"
  by (simp add: js_incr_def)

lemma js_incr_top: "n = 2 ^ 53 \<Longrightarrow> js_incr n = n"
  by (simp add: js_incr_def)

lemma js_incr_funpow: "(js_incr ^^ n) 0 = min n (2 ^ 53)"
proof (induction n)
  case 0
  show ?case by simp
next
  case (Suc n)
  show ?case
  proof (cases "n < 2 ^ 53")
    case True
    then have "(js_incr ^^ n) 0 = n" using Suc by simp
    then have "(js_incr ^^ Suc n) 0 = n + 1" using True by (simp add: js_incr_below)
    then show ?thesis using True by simp
  next
    case False
    then have "(js_incr ^^ n) 0 = 2 ^ 53" using Suc by simp
    then have "(js_incr ^^ Suc n) 0 = 2 ^ 53" using js_incr_top[of "(js_incr ^^ n) 0"] by simp
    then show ?thesis using False by simp
  qed
qed


section \<open>The claims\<close>

subsection \<open>Seeding\<close>

text \<open>
  C3. When \<^verbatim>\<open>init\<close> returns, no tick having run yet, the two cell state buffers hold the
  same array, word for word: the array the seeding loop made from the zero-filled
  \<^verbatim>\<open>Uint32Array\<close>, whatever \<^verbatim>\<open>Math.random()\<close> returned. The two buffers are different
  buffers, and nothing has been submitted to the queue.
\<close>

theorem seed_same_in_both_buffers:
  assumes "init p m w0 = (Inr c, w)"
  shows "contents w (cellStateStorage c ! 0) =
           Some (Uint32Array (seed_loop (random p) 0 0 (replicate (GRID_SIZE * GRID_SIZE) 0)))
       \<and> contents w (cellStateStorage c ! 1) = contents w (cellStateStorage c ! 0)
       \<and> cellStateStorage c ! 0 \<noteq> cellStateStorage c ! 1
       \<and> submitted w = submitted w0"
  unfolding init_contents[OF assms] init_closure_eq[OF assms] init_timers(2)[OF assms]
  by simp

theorem seed_same_in_both_buffers_witness:
  "init browser0 imports0 page0 = (Inr closure0, world0)
   \<and> contents world0 (cellStateStorage closure0 ! 1) =
     contents world0 (cellStateStorage closure0 ! 0)
   \<and> contents world0 (cellStateStorage closure0 ! 0) \<noteq> None"
  using seed_same_in_both_buffers[OF init0] init0 by simp

text \<open>
  C4. In the array written to both state buffers, a cell whose index is not a multiple
  of 3 is 0 (dead); the cell of index \<open>i = 3 * k\<close> is 1 or 0 as draw number \<open>k\<close> of
  \<^verbatim>\<open>Math.random()\<close> is above the threshold or not. The array has \<open>GRID_SIZE * GRID_SIZE\<close>
  cells.
\<close>

theorem only_every_third_cell_seeded:
  assumes "init p m w0 = (Inr c, w)"
  shows "contents w (cellStateStorage c ! 0) =
           Some (Uint32Array (seed_loop (random p) 0 0 (replicate (GRID_SIZE * GRID_SIZE) 0)))
       \<and> contents w (cellStateStorage c ! 1) =
           Some (Uint32Array (seed_loop (random p) 0 0 (replicate (GRID_SIZE * GRID_SIZE) 0)))
       \<and> length (seed_loop (random p) 0 0 (replicate (GRID_SIZE * GRID_SIZE) 0)) =
           GRID_SIZE * GRID_SIZE
       \<and> (\<forall>i < GRID_SIZE * GRID_SIZE.
            seed_loop (random p) 0 0 (replicate (GRID_SIZE * GRID_SIZE) 0) ! i =
              (if i mod 3 = 0
               then (if random p (i div 3) > threshold then 1 else 0)
               else 0))"
  unfolding init_contents[OF assms] init_closure_eq[OF assms]
  by (simp add: length_seed_loop seed_loop_nth)

theorem only_every_third_cell_seeded_witness:
  "init browser0 imports0 page0 = (Inr closure0, world0)
   \<and> (4 :: nat) < GRID_SIZE * GRID_SIZE
   \<and> seed_loop (random browser0) 0 0 (replicate (GRID_SIZE * GRID_SIZE) 0) ! 4 = 0
   \<and> (6 :: nat) < GRID_SIZE * GRID_SIZE
   \<and> seed_loop (random browser0) 0 0 (replicate (GRID_SIZE * GRID_SIZE) 0) ! 6 = 1
   \<and> seed_loop (random browser0) 0 0 (replicate (GRID_SIZE * GRID_SIZE) 0) ! 3 = 0"
  using only_every_third_cell_seeded[OF init0] init0
  by (simp add: GRID_SIZE_def browser0_def threshold_def)

text \<open>
  C9. Every cell of the array written to the two state buffers is 0 or 1.
\<close>

theorem initial_cells_are_0_or_1:
  assumes "init p m w0 = (Inr c, w)"
  shows "contents w (cellStateStorage c ! 0) =
           Some (Uint32Array (seed_loop (random p) 0 0 (replicate (GRID_SIZE * GRID_SIZE) 0)))
       \<and> contents w (cellStateStorage c ! 1) =
           Some (Uint32Array (seed_loop (random p) 0 0 (replicate (GRID_SIZE * GRID_SIZE) 0)))
       \<and> set (seed_loop (random p) 0 0 (replicate (GRID_SIZE * GRID_SIZE) 0)) \<subseteq> {0, 1}"
proof -
  let ?a = "seed_loop (random p) 0 0 (replicate (GRID_SIZE * GRID_SIZE) 0)"
  have "x \<in> {0, 1}" if "x \<in> set ?a" for x
  proof -
    from that obtain i where i: "i < length ?a" "?a ! i = x" by (auto simp: in_set_conv_nth)
    then have "i < length (replicate (GRID_SIZE * GRID_SIZE) (0 :: 32 word))"
      by (simp add: length_seed_loop)
    from seed_loop_nth[OF this, of "random p" 0 0] i(2) i(1)
    show ?thesis by (auto simp: length_seed_loop split: if_splits)
  qed
  then have "set ?a \<subseteq> {0, 1}" by blast
  then show ?thesis
    unfolding init_contents[OF assms] init_closure_eq[OF assms] by simp
qed

theorem initial_cells_are_0_or_1_witness:
  "init browser0 imports0 page0 = (Inr closure0, world0)
   \<and> set (seed_loop (random browser0) 0 0 (replicate (GRID_SIZE * GRID_SIZE) 0)) \<subseteq> {0, 1}"
  using initial_cells_are_0_or_1[OF init0] init0 by simp

subsection \<open>Start-up failures\<close>

text \<open>
  C7. When \<^verbatim>\<open>navigator.gpu\<close> is missing, or no adapter is found, or the canvas gives no
  context, \<^verbatim>\<open>init\<close> throws the error of the first failing check, and the page it leaves
  is the page after the initial \<^verbatim>\<open>resize()\<close>: no buffer (and no other device object) has
  been created, nothing was written or submitted, and no timer was started.
\<close>

theorem startup_failure_creates_nothing:
  assumes "\<not> gpu_supported p \<or> \<not> adapter_found p \<or> \<not> context_found p"
  shows "fst (init p m w0) =
           Inl (if \<not> gpu_supported p then Error ''WebGPU not supported on this browser''
                else if \<not> adapter_found p then Error ''No appropriate GPUAdapter found.''
                else Error ''Could not get canvas context'')
       \<and> snd (init p m w0) = resize w0
       \<and> dev_buffers (snd (init p m w0)) = dev_buffers w0
       \<and> contents (snd (init p m w0)) = contents w0
       \<and> dev_bindGroups (snd (init p m w0)) = dev_bindGroups w0
       \<and> submitted (snd (init p m w0)) = submitted w0
       \<and> timers (snd (init p m w0)) = timers w0"
proof -
  from assms have "\<not> (gpu_supported p \<and> adapter_found p \<and> context_found p)" by blast
  from init_throws[OF this, of m w0] show ?thesis by (simp add: resize_fields)
qed

theorem startup_failure_creates_nothing_witness:
  "\<not> context_found (browser0\<lparr>context_found := False\<rparr>)
   \<and> fst (init (browser0\<lparr>context_found := False\<rparr>) imports0 page0) =
       Inl (Error ''Could not get canvas context'')
   \<and> dev_buffers (snd (init (browser0\<lparr>context_found := False\<rparr>) imports0 page0)) = []
   \<and> timers (snd (init (browser0\<lparr>context_found := False\<rparr>) imports0 page0)) = []
   \<and> fst (init (browser0\<lparr>adapter_found := False\<rparr>) imports0 page0) =
       Inl (Error ''No appropriate GPUAdapter found.'')
   \<and> dev_buffers (snd (init (browser0\<lparr>adapter_found := False\<rparr>) imports0 page0)) = []
   \<and> timers (snd (init (browser0\<lparr>adapter_found := False\<rparr>) imports0 page0)) = []
   \<and> fst (init (browser0\<lparr>gpu_supported := False\<rparr>) imports0 page0) =
       Inl (Error ''WebGPU not supported on this browser'')
   \<and> dev_buffers (snd (init (browser0\<lparr>gpu_supported := False\<rparr>) imports0 page0)) = []
   \<and> timers (snd (init (browser0\<lparr>gpu_supported := False\<rparr>) imports0 page0)) = []"
  using startup_failure_creates_nothing[of "browser0\<lparr>context_found := False\<rparr>" imports0 page0]
    startup_failure_creates_nothing[of "browser0\<lparr>adapter_found := False\<rparr>" imports0 page0]
    startup_failure_creates_nothing[of "browser0\<lparr>gpu_supported := False\<rparr>" imports0 page0]
  by (simp add: browser0_def page0_def resize_fields)

subsection \<open>The resize handler\<close>

text \<open>
  C10. \<^verbatim>\<open>resize\<close> changes nothing of the page but \<^verbatim>\<open>canvas.style\<close>, and there only the
  properties \<open>width\<close>, \<open>height\<close> and the four margins. The canvas's \<open>width\<close> and \<open>height\<close>
  attributes, the device's objects, the buffers' contents, the submitted commands and
  the timers are as before; the closure of \<^verbatim>\<open>init\<close>, with the counter \<open>step\<close>, is not
  among the handler's variables at all.
\<close>

theorem resize_writes_only_style:
  "resize w = w\<lparr>style := style (resize w)\<rparr>
   \<and> canvas_width (resize w) = canvas_width w
   \<and> canvas_height (resize w) = canvas_height w
   \<and> (\<forall>k. k \<notin> {''width'', ''height'', ''marginLeft'', ''marginRight'',
               ''marginTop'', ''marginBottom''}
          \<longrightarrow> style (resize w) k = style w k)"
  by (simp add: resize_def Let_def)

theorem resize_writes_only_style_witness:
  "''color'' \<notin> {''width'', ''height'', ''marginLeft'', ''marginRight'',
                ''marginTop'', ''marginBottom''}
   \<and> style (resize page0) ''color'' = style page0 ''color''
   \<and> canvas_width (resize page0) = 300
   \<and> canvas_height (resize page0) = 150
   \<and> style (resize page0) ''width'' = Some (Px 600)
   \<and> style (resize page0) ''marginLeft'' = Some (Px 100)"
  using resize_writes_only_style[of page0]
  by (simp add: page0_def resize_def Let_def or0_def canvasWidth_def canvasHeight_def)

subsection \<open>The bind groups\<close>

lemma bound_buffer_init:
  assumes "init p m w0 = (Inr c, w)" and "dev_bindGroups w' = dev_bindGroups w"
  shows "bound_buffer w' (bindGroups c ! 0) 1 = Some (cellStateStorage c ! 0)"
    and "bound_buffer w' (bindGroups c ! 0) 2 = Some (cellStateStorage c ! 1)"
    and "bound_buffer w' (bindGroups c ! 1) 1 = Some (cellStateStorage c ! 1)"
    and "bound_buffer w' (bindGroups c ! 1) 2 = Some (cellStateStorage c ! 0)"
  unfolding bound_buffer_def assms(2) init_bindGroups[OF assms(1)] init_closure_eq[OF assms(1)]
  by (simp_all add: nth_append)

lemma mod2_cases: "(n :: nat) mod 2 = 0 \<and> Suc n mod 2 = 1 \<or> n mod 2 = 1 \<and> Suc n mod 2 = 0"
  by presburger

text \<open>
  C1 (amended). For every tick \<open>t\<close> below 2^53, counted from 0: the tick submits one
  command buffer; its compute pass sets \<open>bindGroups[t % 2]\<close>, which reads
  \<open>cellStateStorage[t % 2]\<close> at binding 1 and writes \<open>cellStateStorage[(t+1) % 2]\<close> at
  binding 2; its render pass sets \<open>bindGroups[(t+1) % 2]\<close>, whose binding 1 is the
  buffer the compute pass wrote.
\<close>

theorem render_reads_what_compute_wrote:
  assumes "init p m w0 = (Inr c, w)" and "0 < WORKGROUP_SIZE m" and "t < 2 ^ 53"
  shows "map compute_bind_groups (tick_output m (c, w) t) = [[bindGroups c ! (t mod 2)]]
       \<and> map render_bind_groups (tick_output m (c, w) t) = [[bindGroups c ! (Suc t mod 2)]]
       \<and> bound_buffer (snd (run m (Suc t) (c, w))) (bindGroups c ! (t mod 2)) 1 =
           Some (cellStateStorage c ! (t mod 2))
       \<and> bound_buffer (snd (run m (Suc t) (c, w))) (bindGroups c ! (t mod 2)) 2 =
           Some (cellStateStorage c ! (Suc t mod 2))
       \<and> bound_buffer (snd (run m (Suc t) (c, w))) (bindGroups c ! (Suc t mod 2)) 1 =
           Some (cellStateStorage c ! (Suc t mod 2))
       \<and> map (render_reads_written (snd (run m (Suc t) (c, w)))) (tick_output m (c, w) t) =
           [True]"
proof -
  let ?w = "snd (run m (Suc t) (c, w))"
  have step0: "step c = 0" using init_closure_eq[OF assms(1)] by simp
  have before: "(js_incr ^^ t) (step c) = t"
    unfolding step0 js_incr_funpow using assms(3) by simp
  have after: "(js_incr ^^ Suc t) (step c) = Suc t"
    unfolding step0 js_incr_funpow using assms(3) by simp
  have groups: "dev_bindGroups ?w = dev_bindGroups w"
    using run_keeps(1)[of m "Suc t" "(c, w)"] by simp
  note bb = bound_buffer_init[OF assms(1) groups]
  have out: "map compute_bind_groups (tick_output m (c, w) t) = [[bindGroups c ! (t mod 2)]]"
    "map render_bind_groups (tick_output m (c, w) t) = [[bindGroups c ! (Suc t mod 2)]]"
    unfolding tick_output_ok[OF assms(2)] before after
    by (simp_all add: compute_bind_groups_def render_bind_groups_def)
  have len: "length (tick_output m (c, w) t) = 1"
    unfolding tick_output_ok[OF assms(2)] by simp
  have bufs: "bound_buffer ?w (bindGroups c ! (t mod 2)) 1 = Some (cellStateStorage c ! (t mod 2))"
    "bound_buffer ?w (bindGroups c ! (t mod 2)) 2 = Some (cellStateStorage c ! (Suc t mod 2))"
    "bound_buffer ?w (bindGroups c ! (Suc t mod 2)) 1 = Some (cellStateStorage c ! (Suc t mod 2))"
    using mod2_cases[of t] bb by auto
  obtain cb where cb: "tick_output m (c, w) t = [cb]"
    using len by (cases "tick_output m (c, w) t") auto
  have "render_reads_written ?w cb"
    using out bufs unfolding cb render_reads_written_def by simp
  then show ?thesis using out bufs unfolding cb by simp
qed

theorem render_reads_what_compute_wrote_witness:
  "init browser0 imports0 page0 = (Inr closure0, world0)
   \<and> 0 < WORKGROUP_SIZE imports0
   \<and> (5 :: nat) < 2 ^ 53
   \<and> map compute_bind_groups (tick_output imports0 (closure0, world0) 5) = [[1]]
   \<and> map render_bind_groups (tick_output imports0 (closure0, world0) 5) = [[0]]
   \<and> bound_buffer (snd (run imports0 6 (closure0, world0))) 1 2 = Some 1
   \<and> bound_buffer (snd (run imports0 6 (closure0, world0))) 0 1 = Some 1
   \<and> map (render_reads_written (snd (run imports0 6 (closure0, world0))))
        (tick_output imports0 (closure0, world0) 5) = [True]"
proof -
  have wg: "0 < WORKGROUP_SIZE imports0" by (simp add: imports0_def)
  have t: "(5 :: nat) < 2 ^ 53" by simp
  have s: "Suc 5 = 6" by simp
  from render_reads_what_compute_wrote[OF init0 wg t] init0 wg
  show ?thesis unfolding s by (simp add: closure0_def)
qed

text \<open>
  C1 as stated fails at tick 2^53: by then the counter \<open>step\<close> is 2^53, where \<^verbatim>\<open>step++\<close>
  leaves it. Both passes set \<open>bindGroups[0]\<close>: the compute pass writes \<open>cellStateStorage[1]\<close>
  and the render pass reads \<open>cellStateStorage[0]\<close>.
\<close>

theorem render_reads_stale_buffer_at_2_53:
  "init browser0 imports0 page0 = (Inr closure0, world0)
   \<and> map compute_bind_groups (tick_output imports0 (closure0, world0) (2 ^ 53)) = [[0]]
   \<and> map render_bind_groups (tick_output imports0 (closure0, world0) (2 ^ 53)) = [[0]]
   \<and> bound_buffer (snd (run imports0 (Suc (2 ^ 53)) (closure0, world0))) 0 2 = Some 2
   \<and> bound_buffer (snd (run imports0 (Suc (2 ^ 53)) (closure0, world0))) 0 1 = Some 1
   \<and> map (render_reads_written (snd (run imports0 (Suc (2 ^ 53)) (closure0, world0))))
        (tick_output imports0 (closure0, world0) (2 ^ 53)) = [False]"
proof -
  let ?w = "snd (run imports0 (Suc (2 ^ 53)) (closure0, world0))"
  have wg: "0 < WORKGROUP_SIZE imports0" by (simp add: imports0_def)
  have step0: "step closure0 = 0" by (simp add: closure0_def)
  have before: "(js_incr ^^ (2 ^ 53)) (step closure0) = 2 ^ 53"
    unfolding step0 js_incr_funpow by simp
  have after: "(js_incr ^^ Suc (2 ^ 53)) (step closure0) = 2 ^ 53"
    unfolding step0 js_incr_funpow by simp
  have even: "(2 ^ 53 :: nat) mod 2 = 0" by simp
  have groups: "dev_bindGroups ?w = dev_bindGroups world0"
    using run_keeps(1)[of imports0 "Suc (2 ^ 53)" "(closure0, world0)"] by simp
  have bb: "bound_buffer ?w 0 2 = Some 2" "bound_buffer ?w 0 1 = Some 1"
    using bound_buffer_init(1,2)[OF init0 groups] by (simp_all add: closure0_def)
  have out: "map compute_bind_groups (tick_output imports0 (closure0, world0) (2 ^ 53)) = [[0]]"
    "map render_bind_groups (tick_output imports0 (closure0, world0) (2 ^ 53)) = [[0]]"
    unfolding tick_output_ok[OF wg] before after even
    by (simp_all add: compute_bind_groups_def render_bind_groups_def closure0_def)
  have len: "length (tick_output imports0 (closure0, world0) (2 ^ 53)) = 1"
    unfolding tick_output_ok[OF wg] by simp
  obtain cb where cb: "tick_output imports0 (closure0, world0) (2 ^ 53) = [cb]"
    using len by (cases "tick_output imports0 (closure0, world0) (2 ^ 53)") auto
  have "\<not> render_reads_written ?w cb"
    using out bb unfolding cb render_reads_written_def by simp
  then show ?thesis using out bb init0 unfolding cb by simp
qed

lemma run_step:
  assumes "0 < WORKGROUP_SIZE m"
  shows "step (fst (run m n (c, w))) = (js_incr ^^ n) (step c)"
  unfolding run_closure[OF assms] by simp

text \<open>
  C2. \<^verbatim>\<open>init\<close> creates two bind groups, after those the device had: the first binds the
  uniform buffer at 0, \<open>cellStateStorage[0]\<close> at 1 and \<open>cellStateStorage[1]\<close> at 2, the second
  the same uniform buffer, \<open>cellStateStorage[1]\<close> at 1 and \<open>cellStateStorage[0]\<close> at 2; the
  array \<open>bindGroups\<close> holds these two. No number of ticks changes the device's bind groups
  or the array: a tick (when the workgroup size is positive) only sets
  \<open>bindGroups[step % 2]\<close>, in the compute pass with \<open>step\<close> as the tick finds it, in the
  render pass with \<open>step\<close> as the tick leaves it.
\<close>

theorem two_bind_groups_only_selected:
  assumes "init p m w0 = (Inr c, w)"
  shows "length (dev_bindGroups w) = length (dev_bindGroups w0) + 2
       \<and> take (length (dev_bindGroups w0)) (dev_bindGroups w) = dev_bindGroups w0
       \<and> bindGroups c = [length (dev_bindGroups w0), length (dev_bindGroups w0) + 1]
       \<and> bg_entries (dev_bindGroups w ! (bindGroups c ! 0)) =
           [(0, uniformBuffer c), (1, cellStateStorage c ! 0), (2, cellStateStorage c ! 1)]
       \<and> bg_entries (dev_bindGroups w ! (bindGroups c ! 1)) =
           [(0, uniformBuffer c), (1, cellStateStorage c ! 1), (2, cellStateStorage c ! 0)]
       \<and> cellStateStorage c ! 0 \<noteq> cellStateStorage c ! 1
       \<and> dev_bindGroups (snd (run m n (c, w))) = dev_bindGroups w
       \<and> bindGroups (fst (run m n (c, w))) = bindGroups c
       \<and> (0 < WORKGROUP_SIZE m \<longrightarrow>
            map compute_bind_groups (tick_output m (c, w) n) =
              [[bindGroups c ! (step (fst (run m n (c, w))) mod 2)]]
          \<and> map render_bind_groups (tick_output m (c, w) n) =
              [[bindGroups c ! (step (fst (run m (Suc n) (c, w))) mod 2)]])"
proof -
  have created: "length (dev_bindGroups w) = length (dev_bindGroups w0) + 2"
    "take (length (dev_bindGroups w0)) (dev_bindGroups w) = dev_bindGroups w0"
    unfolding init_bindGroups[OF assms] by simp_all
  have array: "bindGroups c = [length (dev_bindGroups w0), length (dev_bindGroups w0) + 1]"
    unfolding init_closure_eq[OF assms] by simp
  have entries:
    "bg_entries (dev_bindGroups w ! (bindGroups c ! 0)) =
       [(0, uniformBuffer c), (1, cellStateStorage c ! 0), (2, cellStateStorage c ! 1)]"
    "bg_entries (dev_bindGroups w ! (bindGroups c ! 1)) =
       [(0, uniformBuffer c), (1, cellStateStorage c ! 1), (2, cellStateStorage c ! 0)]"
    "cellStateStorage c ! 0 \<noteq> cellStateStorage c ! 1"
    unfolding init_bindGroups[OF assms] init_closure_eq[OF assms]
    by (simp_all add: nth_append)
  have kept: "dev_bindGroups (snd (run m n (c, w))) = dev_bindGroups w"
    "bindGroups (fst (run m n (c, w))) = bindGroups c"
    using run_keeps(1,2)[of m n "(c, w)"] by simp_all
  have selected: "map compute_bind_groups (tick_output m (c, w) n) =
              [[bindGroups c ! (step (fst (run m n (c, w))) mod 2)]]
          \<and> map render_bind_groups (tick_output m (c, w) n) =
              [[bindGroups c ! (step (fst (run m (Suc n) (c, w))) mod 2)]]"
    if wg: "0 < WORKGROUP_SIZE m"
    unfolding tick_output_ok[OF wg] run_step[OF wg]
    by (simp add: compute_bind_groups_def render_bind_groups_def)
  from created array entries kept selected show ?thesis by blast
qed

theorem two_bind_groups_only_selected_witness:
  "init browser0 imports0 page0 = (Inr closure0, world0)
   \<and> 0 < WORKGROUP_SIZE imports0
   \<and> length (dev_bindGroups world0) = 2
   \<and> bg_entries (dev_bindGroups world0 ! 0) = [(0, 0), (1, 1), (2, 2)]
   \<and> bg_entries (dev_bindGroups world0 ! 1) = [(0, 0), (1, 2), (2, 1)]
   \<and> dev_bindGroups (snd (run imports0 7 (closure0, world0))) = dev_bindGroups world0
   \<and> map compute_bind_groups (tick_output imports0 (closure0, world0) 7) =
       [[bindGroups closure0 ! (step (fst (run imports0 7 (closure0, world0))) mod 2)]]"
proof -
  have wg: "0 < WORKGROUP_SIZE imports0" by (simp add: imports0_def)
  from two_bind_groups_only_selected[OF init0, of 7] init0 wg
  show ?thesis by (simp add: closure0_def page0_def)
qed

subsection \<open>Dispatch and draw\<close>

lemma ceiling_quotient:
  assumes "0 < k" and "0 < n"
  shows "n \<le> nat \<lceil>real n / real k\<rceil> * k"
    and "(nat \<lceil>real n / real k\<rceil> - 1) * k < n"
proof -
  define x where "x = real n / real k"
  define c where "c = nat \<lceil>x\<rceil>"
  have "0 < x" using assms by (simp add: x_def)
  then have ceil: "0 < \<lceil>x\<rceil>" by linarith
  then have c: "real c = of_int \<lceil>x\<rceil>" by (simp add: c_def)
  from ceil have cpos: "1 \<le> c" unfolding c_def by linarith
  have c1: "real (c - 1) = real c - 1" using of_nat_diff[OF cpos, where 'a = real] by simp
  have "x \<le> real c" unfolding c by linarith
  then have "real n \<le> real c * real k" using assms(1) by (simp add: x_def divide_le_eq)
  then have "real n \<le> real (c * k)" by simp
  then have le: "n \<le> c * k" by (simp only: of_nat_le_iff)
  have "real c - 1 < x" unfolding c by linarith
  then have "real (c - 1) * real k < real n"
    unfolding c1 using assms(1) by (simp add: x_def less_divide_eq)
  then have "real ((c - 1) * k) < real n" by simp
  then have less: "(c - 1) * k < n" by (simp only: of_nat_less_iff)
  from le show "n \<le> nat \<lceil>real n / real k\<rceil> * k" by (simp add: c_def x_def)
  from less show "(nat \<lceil>real n / real k\<rceil> - 1) * k < n" by (simp add: c_def x_def)
qed

text \<open>
  C5. Every tick (with a positive workgroup size, any state of the closure and the
  page) submits one command buffer with one dispatch, of \<open>count\<close> by \<open>count\<close> workgroups,
  where \<open>count\<close> is the ceiling of \<open>GRID_SIZE / WORKGROUP_SIZE\<close>: the least number of
  workgroups of that size that cover a side of the grid.
\<close>

theorem dispatch_is_square_ceiling:
  assumes "0 < WORKGROUP_SIZE m"
  shows "map compute_dispatches (tick_output m (c, w) t) =
           [[(nat \<lceil>real GRID_SIZE / real (WORKGROUP_SIZE m)\<rceil>,
              nat \<lceil>real GRID_SIZE / real (WORKGROUP_SIZE m)\<rceil>)]]
       \<and> GRID_SIZE \<le> nat \<lceil>real GRID_SIZE / real (WORKGROUP_SIZE m)\<rceil> * WORKGROUP_SIZE m
       \<and> (nat \<lceil>real GRID_SIZE / real (WORKGROUP_SIZE m)\<rceil> - 1) * WORKGROUP_SIZE m < GRID_SIZE"
proof -
  have g: "0 < GRID_SIZE" by (simp add: GRID_SIZE_def)
  show ?thesis
    unfolding tick_output_ok[OF assms]
    using ceiling_quotient(1,2)[OF assms g]
    by (simp add: compute_dispatches_def)
qed

theorem dispatch_is_square_ceiling_witness:
  "0 < WORKGROUP_SIZE imports0
   \<and> map compute_dispatches (tick_output imports0 (closure0, world0) 3) = [[(4, 4)]]
   \<and> map compute_dispatches (tick_output (imports0\<lparr>WORKGROUP_SIZE := 5\<rparr>) (closure0, world0) 3)
       = [[(7, 7)]]"
proof -
  have wg: "0 < WORKGROUP_SIZE imports0" "0 < WORKGROUP_SIZE (imports0\<lparr>WORKGROUP_SIZE := 5\<rparr>)"
    by (simp_all add: imports0_def)
  from dispatch_is_square_ceiling[OF wg(1), of closure0 world0 3]
    dispatch_is_square_ceiling[OF wg(2), of closure0 world0 3]
  show ?thesis by (simp add: imports0_def GRID_SIZE_def)
qed

text \<open>
  C6. Every tick (with a positive workgroup size) submits one command buffer whose
  render pass issues one draw, of \<open>vertices.length / 2 = 6\<close> vertices and
  \<open>GRID_SIZE * GRID_SIZE = 1024\<close> instances: 6144 vertices.
\<close>

theorem one_draw_of_6144_vertices:
  assumes "0 < WORKGROUP_SIZE m"
  shows "map render_draws (tick_output m (c, w) t) =
           [[(length vertices div 2, GRID_SIZE * GRID_SIZE)]]
       \<and> length vertices = 12
       \<and> length vertices div 2 = 6
       \<and> GRID_SIZE * GRID_SIZE = 1024
       \<and> map (map (\<lambda>(vertexCount, instanceCount). vertexCount * instanceCount) \<circ> render_draws)
            (tick_output m (c, w) t) = [[6144]]"
  unfolding tick_output_ok[OF assms]
  by (simp add: render_draws_def vertices_def GRID_SIZE_def)

theorem one_draw_of_6144_vertices_witness:
  "0 < WORKGROUP_SIZE imports0
   \<and> map render_draws (tick_output imports0 (closure0, world0) 3) = [[(6, 1024)]]"
proof -
  have wg: "0 < WORKGROUP_SIZE imports0" by (simp add: imports0_def)
  from one_draw_of_6144_vertices[OF wg, of closure0 world0 3] wg
  show ?thesis by simp
qed

subsection \<open>The seeding probability\<close>

lemma seeded_eq: "seeded r = (if threshold < r then 1 else 0)"
  unfolding seeded_def using seed_loop_nth[of 0 "[0]" "\<lambda>k. r" 0 0] by simp

lemma threshold_bounds: "2 / 5 < threshold" "threshold < 2 / 5 + 1 / 2 ^ 54" "threshold < 1"
  "0 < threshold"
  by (simp_all add: threshold_def)

lemma dead_count:
  assumes "0 < n"
  shows "length (filter (\<lambda>k. seeded (real k / real n) = 0) [0..<n]) =
           Suc (nat \<lfloor>threshold * real n\<rfloor>)"
proof -
  define d where "d = Suc (nat \<lfloor>threshold * real n\<rfloor>)"
  have nonneg: "0 \<le> \<lfloor>threshold * real n\<rfloor>"
    using threshold_bounds(4) by simp
  have "threshold * real n < real n" using threshold_bounds(3) assms by simp
  then have "\<lfloor>threshold * real n\<rfloor> < int n" by linarith
  then have dn: "d \<le> n" using nonneg unfolding d_def by linarith
  have dead: "seeded (real k / real n) = 0 \<longleftrightarrow> k < d" for k
  proof -
    have "seeded (real k / real n) = 0 \<longleftrightarrow> real k / real n \<le> threshold"
      by (simp add: seeded_eq)
    also have "\<dots> \<longleftrightarrow> real k \<le> threshold * real n"
      using assms by (simp add: divide_le_eq)
    also have "\<dots> \<longleftrightarrow> int k \<le> \<lfloor>threshold * real n\<rfloor>"
      by (simp add: le_floor_iff)
    also have "\<dots> \<longleftrightarrow> k < d" using nonneg unfolding d_def by linarith
    finally show ?thesis .
  qed
  have "{i. i < n \<and> [0..<n] ! i < d} = {i. i < n \<and> i < d}" by auto
  then have "length (filter (\<lambda>k. seeded (real k / real n) = 0) [0..<n]) =
          card {i. i < n \<and> i < d}"
    by (simp add: length_filter_conv_card dead)
  also have "{i. i < n \<and> i < d} = {..<d}" using dn by auto
  finally show ?thesis by (simp add: d_def)
qed

lemma dead_fraction_bounds:
  assumes "0 < n"
  shows "threshold < dead_fraction n" "dead_fraction n \<le> threshold + 1 / real n"
proof -
  have nonneg: "0 \<le> \<lfloor>threshold * real n\<rfloor>"
    using threshold_bounds(4) by simp
  have d: "dead_fraction n = (of_int \<lfloor>threshold * real n\<rfloor> + 1) / real n"
    unfolding dead_fraction_def dead_count[OF assms] using nonneg by simp
  have "threshold * real n < of_int \<lfloor>threshold * real n\<rfloor> + 1" by linarith
  then show "threshold < dead_fraction n"
    unfolding d using assms by (simp add: less_divide_eq)
  have "of_int \<lfloor>threshold * real n\<rfloor> + 1 \<le> threshold * real n + 1" by linarith
  then have "(of_int \<lfloor>threshold * real n\<rfloor> + 1) / real n \<le> (threshold * real n + 1) / real n"
    using assms by (simp add: divide_right_mono)
  also have "\<dots> = threshold + 1 / real n" using assms by (simp add: field_simps)
  finally show "dead_fraction n \<le> threshold + 1 / real n" unfolding d .
qed

lemma dead_fraction_eq:
  assumes "0 < n"
  shows "dead_fraction n = real (Suc (nat \<lfloor>threshold * real n\<rfloor>)) / real n"
  unfolding dead_fraction_def dead_count[OF assms] ..

text \<open>
  C8 (amended). A seeded cell is alive exactly when its draw is above the threshold (the
  double nearest to 0.4) and dead when the draw is at most the threshold. Of the draws
  from 0 to 1, those that give a live cell are the interval from the threshold to 1, of
  length about 0.6, and those that give a dead cell the interval from 0 to the
  threshold, of length about 0.4: among \<open>n\<close> equally spaced draws, the share of dead
  cells is between the threshold and the threshold plus \<open>1/n\<close>. The cell of index
  \<open>i = 3 * k\<close> of the initial array is seeded from draw number \<open>k\<close>.
\<close>

theorem seeded_cell_alive_above_threshold:
  "(seeded r = 1 \<longleftrightarrow> threshold < r)
   \<and> (seeded r = 0 \<longleftrightarrow> r \<le> threshold)
   \<and> 2 / 5 < threshold \<and> threshold < 2 / 5 + 1 / 2 ^ 54
   \<and> {x. 0 \<le> x \<and> x < 1 \<and> seeded x = 1} = {threshold <..< 1}
   \<and> {x. 0 \<le> x \<and> x < 1 \<and> seeded x = 0} = {0 .. threshold}
   \<and> (0 < n \<longrightarrow> threshold < dead_fraction n \<and> dead_fraction n \<le> threshold + 1 / real n)
   \<and> (init p m w0 = (Inr c, w) \<and> i < GRID_SIZE * GRID_SIZE \<and> i mod 3 = 0 \<longrightarrow>
        contents w (cellStateStorage c ! 0) =
          Some (Uint32Array (seed_loop (random p) 0 0 (replicate (GRID_SIZE * GRID_SIZE) 0)))
      \<and> seed_loop (random p) 0 0 (replicate (GRID_SIZE * GRID_SIZE) 0) ! i =
          seeded (random p (i div 3)))"
proof -
  have point: "seeded r = 1 \<longleftrightarrow> threshold < r" "seeded r = 0 \<longleftrightarrow> r \<le> threshold"
    by (simp_all add: seeded_eq)
  have alive: "{x. 0 \<le> x \<and> x < 1 \<and> seeded x = 1} = {threshold <..< 1}"
    using threshold_bounds(4) by (auto simp: seeded_eq)
  have dead: "{x. 0 \<le> x \<and> x < 1 \<and> seeded x = 0} = {0 .. threshold}"
    using threshold_bounds(3) by (auto simp: seeded_eq)
  have share: "threshold < dead_fraction n \<and> dead_fraction n \<le> threshold + 1 / real n"
    if "0 < n" using dead_fraction_bounds[OF that] by simp
  have cell: "contents w (cellStateStorage c ! 0) =
          Some (Uint32Array (seed_loop (random p) 0 0 (replicate (GRID_SIZE * GRID_SIZE) 0)))
      \<and> seed_loop (random p) 0 0 (replicate (GRID_SIZE * GRID_SIZE) 0) ! i =
          seeded (random p (i div 3))"
    if "init p m w0 = (Inr c, w)" "i < GRID_SIZE * GRID_SIZE" "i mod 3 = 0"
    unfolding init_contents[OF that(1)] init_closure_eq[OF that(1)]
    using that(2,3) by (simp add: seed_loop_nth seeded_eq)
  have share': "0 < n \<longrightarrow>
      threshold < dead_fraction n \<and> dead_fraction n \<le> threshold + 1 / real n"
    using share by (rule impI)
  have cell': "init p m w0 = (Inr c, w) \<and> i < GRID_SIZE * GRID_SIZE \<and> i mod 3 = 0 \<longrightarrow>
        contents w (cellStateStorage c ! 0) =
          Some (Uint32Array (seed_loop (random p) 0 0 (replicate (GRID_SIZE * GRID_SIZE) 0)))
      \<and> seed_loop (random p) 0 0 (replicate (GRID_SIZE * GRID_SIZE) 0) ! i =
          seeded (random p (i div 3))"
    using cell by (intro impI) (elim conjE)
  show ?thesis
    by (intro conjI) (rule point alive dead threshold_bounds(1) threshold_bounds(2) share' cell')+
qed

theorem seeded_cell_alive_above_threshold_witness:
  "seeded (3 / 4) = 1 \<and> seeded (1 / 4) = 0
   \<and> 0 < (2 :: nat) ^ 53
   \<and> dead_fraction (2 ^ 53) = 3602879701896398 / 9007199254740992
   \<and> init browser0 imports0 page0 = (Inr closure0, world0)
   \<and> (6 :: nat) < GRID_SIZE * GRID_SIZE \<and> (6 :: nat) mod 3 = 0
   \<and> seed_loop (random browser0) 0 0 (replicate (GRID_SIZE * GRID_SIZE) 0) ! 6 =
       seeded (random browser0 2)"
proof -
  have n: "0 < (2 :: nat) ^ 53" by simp
  have d: "dead_fraction (2 ^ 53) = 3602879701896398 / 9007199254740992"
    unfolding dead_fraction_eq[OF n] by (simp add: threshold_def)
  have i: "(6 :: nat) < GRID_SIZE * GRID_SIZE" "(6 :: nat) mod 3 = 0" "(6 :: nat) div 3 = 2"
    by (simp_all add: GRID_SIZE_def)
  from seeded_cell_alive_above_threshold[of "3 / 4" "2 ^ 53" browser0 imports0 page0 closure0
      world0 6]
    seeded_cell_alive_above_threshold[of "1 / 4" "2 ^ 53" browser0 imports0 page0 closure0
      world0 6] init0 i d n
  show ?thesis by (simp add: threshold_def)
qed

text \<open>
  C8 as stated fails: a draw of 1/2, in the lower 60% of the draws, gives a live cell, and
  of the 1000 equally spaced draws \<open>0/1000, ..., 999/1000\<close> the dead cells are 401, about
  40% and not about 60%.
\<close>

theorem seeded_dead_share_is_40_percent:
  "seeded (1 / 2) = 1 \<and> dead_fraction 1000 = 401 / 1000 \<and> dead_fraction 1000 < 1 / 2"
proof -
  have n: "0 < (1000 :: nat)" by simp
  have d: "dead_fraction 1000 = 401 / 1000"
    unfolding dead_fraction_eq[OF n] by (simp add: threshold_def)
  show ?thesis unfolding d by (simp add: seeded_eq threshold_def)
qed

end
